theory Spec2Isabelle
  imports Main "HOL-Library.Word"
begin

unbundle bit_operations_syntax

section \<open>Go values\<close>

text \<open>
  A \<open>[]byte\<close> is a list of 8-bit words; \<open>nil\<close> and the empty slice are both \<open>[]\<close>.
  \<open>uint16\<close> and \<open>uint32\<close> are words of that width, \<open>int\<close> is a 64-bit word read as
  two's complement. A Go string is a sequence of bytes, here a \<open>string\<close>.
  A run-time panic of Go is the left summand of a result; an \<open>error\<close> value that a
  function returns beside its result is an \<open>error option\<close>.
\<close>

type_synonym byte = "8 word"
type_synonym uint16 = "16 word"
type_synonym uint32 = "32 word"
type_synonym go_int = "64 word"

datatype panic = IndexOutOfRange | SliceBoundsOutOfRange

datatype error = Error string

definition bnd :: "panic + 'a \<Rightarrow> ('a \<Rightarrow> panic + 'b) \<Rightarrow> panic + 'b" where
  "bnd r f = (case r of Inl e \<Rightarrow> Inl e | Inr x \<Rightarrow> f x)"

text \<open>\<open>s[i]\<close>: panics when \<open>i\<close> is not below \<open>len(s)\<close>.\<close>

definition index :: "'a list \<Rightarrow> nat \<Rightarrow> panic + 'a" where
  "index s i = (if i < length s then Inr (s ! i) else Inl IndexOutOfRange)"

text \<open>
  \<open>bytes.Buffer\<close>, as \<open>Message.Decode\<close> uses it: the unread bytes. \<open>buf.Next(n)\<close>
  returns the next \<open>n\<close> bytes, or all that is left when fewer are, and advances.
  \<open>buf.Next(1)[0]\<close> indexes that result, so it panics on an exhausted buffer.
\<close>

definition Next :: "nat \<Rightarrow> byte list \<Rightarrow> byte list \<times> byte list" where
  "Next n buf = (take n buf, drop n buf)"

definition Next1 :: "byte list \<Rightarrow> panic + (byte \<times> byte list)" where
  "Next1 buf = (case Next 1 buf of (s, buf') \<Rightarrow> bnd (index s 0) (\<lambda>b. Inr (b, buf')))"

text \<open>
  What the sources under verification take from outside: the standard library's
  \<open>net.ParseMAC\<close> and \<open>net.ParseIP(s).To4()\<close> (\<open>nil\<close> as \<open>[]\<close>), the number of zero
  bytes of capacity that \<open>buf.Grow\<close> leaves behind the datagram (a slice expression
  \<open>b[i:j]\<close> may reach into them), and option 138, whose type is used by
  \<open>Message.Decode\<close> but declared nowhere in the sources: its \<open>Decode\<close> gets the
  slice and the bytes behind it up to the capacity and yields the decoded payload
  or panics, its \<open>Encode\<close> and \<open>GetCode\<close> read the \<open>Length\<close> field and that payload.
\<close>

record extern =
  ParseMAC :: "string \<Rightarrow> error + byte list"
  ParseIP_To4 :: "string \<Rightarrow> byte list"
  spare :: nat
  Option138_Decode :: "byte list \<Rightarrow> byte list \<Rightarrow> panic + byte list"
  Option138_Encode :: "byte \<Rightarrow> byte list \<Rightarrow> byte list"
  Option138_GetCode :: "byte \<Rightarrow> byte list \<Rightarrow> byte"

section \<open>ByteCodec\<close>

definition Uint16ToBytes :: "uint16 \<Rightarrow> byte list" where
  "Uint16ToBytes data = [ucast (drop_bit 8 data), ucast data]"

definition Uint32ToBytes :: "uint32 \<Rightarrow> byte list" where
  "Uint32ToBytes data =
     [ucast (drop_bit 24 data), ucast (drop_bit 16 data), ucast (drop_bit 8 data), ucast data]"

definition BytesToUint16 :: "byte list \<Rightarrow> panic + uint16" where
  "BytesToUint16 data =
     (if length data \<noteq> 2 then bnd (index data 0) (\<lambda>b. Inr (ucast b))
      else Inr (push_bit 8 (ucast (data ! 0)) OR ucast (data ! 1)))"

definition BytesToUint32 :: "byte list \<Rightarrow> uint32" where
  "BytesToUint32 data =
     (if length data < 4 then 0
      else push_bit 24 (ucast (data ! 0)) OR push_bit 16 (ucast (data ! 1))
           OR push_bit 8 (ucast (data ! 2)) OR ucast (data ! 3))"

section \<open>OptionCodec\<close>

type_synonym MessageType = byte

abbreviation (input) MessageTypeDiscover :: MessageType where "MessageTypeDiscover \<equiv> 1"
abbreviation (input) MessageTypeOffer :: MessageType where "MessageTypeOffer \<equiv> 2"
abbreviation (input) MessageTypeRequest :: MessageType where "MessageTypeRequest \<equiv> 3"
abbreviation (input) MessageTypeDecline :: MessageType where "MessageTypeDecline \<equiv> 4"
abbreviation (input) MessageTypeAck :: MessageType where "MessageTypeAck \<equiv> 5"
abbreviation (input) MessageTypeNak :: MessageType where "MessageTypeNak \<equiv> 6"
abbreviation (input) MessageTypeRelease :: MessageType where "MessageTypeRelease \<equiv> 7"

text \<open>
  The implementations of the interface \<open>OptionInter\<close>, one constructor per struct,
  the fields in the order of the declaration (\<open>Code\<close>, \<open>Length\<close>, payload).
  \<open>Option138\<close> holds its \<open>Length\<close> and the payload its absent \<open>Decode\<close> produced.
\<close>

datatype OptionInter =
    Option1 byte byte "byte list"
  | Option3 byte byte "byte list list"
  | Option6 byte byte "byte list list"
  | Option12 byte byte "byte list"
  | Option50 byte byte "byte list"
  | Option51 byte byte "byte list"
  | Option53 byte byte MessageType
  | Option54 byte byte "byte list"
  | Option55 byte byte "byte list"
  | Option57 byte byte "byte list"
  | Option58 byte byte "byte list"
  | Option59 byte byte "byte list"
  | Option61 byte byte byte "byte list"
  | Option108 byte byte "byte list"
  | Option138 byte "byte list"
  | Option255 byte

fun GetCode :: "extern \<Rightarrow> OptionInter \<Rightarrow> byte" where
  "GetCode X (Option1 c l v) = c"
| "GetCode X (Option3 c l v) = c"
| "GetCode X (Option6 c l v) = c"
| "GetCode X (Option12 c l v) = c"
| "GetCode X (Option50 c l v) = c"
| "GetCode X (Option51 c l v) = c"
| "GetCode X (Option53 c l t) = c"
| "GetCode X (Option54 c l v) = c"
| "GetCode X (Option55 c l v) = c"
| "GetCode X (Option57 c l v) = c"
| "GetCode X (Option58 c l v) = c"
| "GetCode X (Option59 c l v) = c"
| "GetCode X (Option61 c l h v) = c"
| "GetCode X (Option108 c l v) = c"
| "GetCode X (Option138 l v) = Option138_GetCode X l v"
| "GetCode X (Option255 c) = c"

fun Option_Encode :: "extern \<Rightarrow> OptionInter \<Rightarrow> byte list" where
  "Option_Encode X (Option1 c l v) = [c, l] @ v"
| "Option_Encode X (Option3 c l rs) = foldl (\<lambda>b router. b @ router) [c, l] rs"
| "Option_Encode X (Option6 c l ds) = foldl (\<lambda>b domainServer. b @ domainServer) [c, l] ds"
| "Option_Encode X (Option12 c l v) = [c, l] @ v"
| "Option_Encode X (Option50 c l v) = [c, l] @ v"
| "Option_Encode X (Option51 c l v) = [c, l] @ v"
| "Option_Encode X (Option53 c l t) = [c, l, t]"
| "Option_Encode X (Option54 c l v) = [c, l] @ v"
| "Option_Encode X (Option55 c l v) = [c, l] @ v"
| "Option_Encode X (Option57 c l v) = [c, l] @ v"
| "Option_Encode X (Option58 c l v) = [c, l] @ v"
| "Option_Encode X (Option59 c l v) = [c, l] @ v"
| "Option_Encode X (Option61 c l h v) = [c, l, h] @ v"
| "Option_Encode X (Option108 c l v) = [c, l] @ v"
| "Option_Encode X (Option138 l v) = Option138_Encode X l v"
| "Option_Encode X (Option255 c) = [c]"

subsection \<open>Generators\<close>

definition GenOption12 :: "string \<Rightarrow> OptionInter" where
  "GenOption12 hostName =
     (let name = map of_char hostName in Option12 12 (of_nat (length name)) name)"

definition GenOption50 :: "byte list \<Rightarrow> OptionInter" where
  "GenOption50 address = Option50 50 4 address"

definition GenOption51 :: "uint32 \<Rightarrow> OptionInter" where
  "GenOption51 t = Option51 51 4 (Uint32ToBytes t)"

definition GenOption53 :: "MessageType \<Rightarrow> OptionInter" where
  "GenOption53 c = Option53 53 1 c"

definition GenOption55 :: OptionInter where
  "GenOption55 =
     (let parameters = [1, 3, 6, 15, 46, 108, 114, 119, 121, 252]
      in Option55 55 (of_nat (length parameters)) parameters)"

definition GenOption57 :: "uint16 \<Rightarrow> OptionInter" where
  "GenOption57 t = Option57 57 2 (Uint16ToBytes t)"

definition GenOption61 :: "byte list \<Rightarrow> OptionInter" where
  "GenOption61 mac = Option61 61 7 1 mac"

definition GenOption255 :: OptionInter where
  "GenOption255 = Option255 255"

text \<open>
  Modelled from the spec: \<open>GenOption54\<close> is called by \<open>Conn.Decline\<close> and
  \<open>Conn.Release\<close> and declared nowhere in the sources; the option table of the
  spec gives option 54 the encode shape "code, 4, 4 bytes", as \<open>GenOption50\<close> has.
\<close>

definition GenOption54 :: "byte list \<Rightarrow> OptionInter" where
  "GenOption54 address = Option54 54 4 address"

subsection \<open>Decoders called by the message decoder\<close>

text \<open>
  Each is the method on the zero value of its struct, as \<open>Message.Decode\<close> calls it.
  \<open>b[1:]\<close> comes after \<open>b[0]\<close> has been read, so it cannot panic.
\<close>

definition Option1_Decode :: "byte list \<Rightarrow> panic + OptionInter" where
  "Option1_Decode b = bnd (index b 0) (\<lambda>l. Inr (Option1 1 l (drop 1 b)))"

definition Option51_Decode :: "byte list \<Rightarrow> panic + OptionInter" where
  "Option51_Decode b = bnd (index b 0) (\<lambda>l. Inr (Option51 51 l (drop 1 b)))"

definition Option53_Decode :: "byte list \<Rightarrow> panic + OptionInter" where
  "Option53_Decode b = bnd (index b 0) (\<lambda>l. bnd (index b 1) (\<lambda>t. Inr (Option53 53 l t)))"

definition Option54_Decode :: "byte list \<Rightarrow> panic + OptionInter" where
  "Option54_Decode b =
     bnd (Next1 b) (\<lambda>(l, buf). case Next 4 buf of (v, buf') \<Rightarrow> Inr (Option54 54 l v))"

definition Option58_Decode :: "byte list \<Rightarrow> panic + OptionInter" where
  "Option58_Decode b = bnd (index b 0) (\<lambda>l. Inr (Option58 58 l (drop 1 b)))"

definition Option59_Decode :: "byte list \<Rightarrow> panic + OptionInter" where
  "Option59_Decode b = bnd (index b 0) (\<lambda>l. Inr (Option59 59 l (drop 1 b)))"

definition Option108_Decode :: "byte list \<Rightarrow> panic + OptionInter" where
  "Option108_Decode b = bnd (index b 0) (\<lambda>l. Inr (Option108 108 l (drop 1 b)))"

text \<open>\<open>Option61.Decode\<close> leaves \<open>Length\<close> at the receiver's value; the caller sets it.\<close>

definition Option61_Decode :: "byte \<Rightarrow> byte list \<Rightarrow> panic + OptionInter" where
  "Option61_Decode l b = bnd (index b 0) (\<lambda>h. Inr (Option61 61 l h (drop 1 b)))"

text \<open>
  \<open>Option3.Decode\<close> and \<open>Option6.Decode\<close>: \<open>for i := 0; i < int(length); i += 4\<close>
  appends \<open>b[i:i+4]\<close>. A slice expression is checked against the capacity, not the
  length: \<open>behind\<close> are the bytes of the underlying array after \<open>b\<close>.
\<close>

function chunks4 :: "nat \<Rightarrow> nat \<Rightarrow> byte list \<Rightarrow> byte list \<Rightarrow> byte list list \<Rightarrow> panic + byte list list" where
  "chunks4 i len b behind acc =
     (if i < len then
        (if i + 4 \<le> length b + length behind
         then chunks4 (i + 4) len b behind (acc @ [take 4 (drop i (b @ behind))])
         else Inl SliceBoundsOutOfRange)
      else Inr acc)"
  by pat_completeness auto
termination
  by (relation "measure (\<lambda>(i, len, b, behind, acc). len - i)") auto

declare chunks4.simps [simp del]

definition Option3_Decode :: "byte \<Rightarrow> byte list \<Rightarrow> byte list \<Rightarrow> panic + OptionInter" where
  "Option3_Decode l b behind = bnd (chunks4 0 (unat l) b behind []) (\<lambda>rs. Inr (Option3 3 l rs))"

definition Option6_Decode :: "byte \<Rightarrow> byte list \<Rightarrow> byte list \<Rightarrow> panic + OptionInter" where
  "Option6_Decode l b behind = bnd (chunks4 0 (unat l) b behind []) (\<lambda>ds. Inr (Option6 6 l ds))"

section \<open>MessageCodec\<close>

record ClientHardware =
  HardwareAddress :: "byte list"
  HardwareAddressPadding :: "byte list"

record Message =
  OpCode :: byte
  HardwareType :: byte
  HardwareLength :: byte
  Hops :: byte
  TransactionID :: uint32
  SecondsElapsed :: uint16
  Flags :: uint16
  ClientIP :: "byte list"
  YourIP :: "byte list"
  NextServerIP :: "byte list"
  RelayAgentIP :: "byte list"
  ClientMAC :: ClientHardware
  ServerHostName :: "byte list"
  BootFile :: "byte list"
  MagicCookie :: "byte list"
  Options :: "OptionInter list"
  MessageType :: MessageType

text \<open>The zero values \<open>ClientHardware{}\<close> and \<open>Message{}\<close>.\<close>

definition ClientHardware0 :: ClientHardware where
  "ClientHardware0 = \<lparr>HardwareAddress = [], HardwareAddressPadding = []\<rparr>"

definition Message0 :: Message where
  "Message0 = \<lparr>OpCode = 0, HardwareType = 0, HardwareLength = 0, Hops = 0,
     TransactionID = 0, SecondsElapsed = 0, Flags = 0, ClientIP = [], YourIP = [],
     NextServerIP = [], RelayAgentIP = [], ClientMAC = ClientHardware0,
     ServerHostName = [], BootFile = [], MagicCookie = [], Options = [], MessageType = 0\<rparr>"

text \<open>The package variable \<open>MagicCookie\<close> and the constant \<open>MinRequestLength\<close>.\<close>

definition MagicCookieVar :: "byte list" where
  "MagicCookieVar = [0x63, 0x82, 0x53, 0x63]"

definition MinRequestLength :: int where
  "MinRequestLength = 300"

text \<open>\<open>GenClientHardware\<close> returns a value and an error, as Go's two results.\<close>

definition GenClientHardware :: "extern \<Rightarrow> string \<Rightarrow> ClientHardware \<times> error option" where
  "GenClientHardware X mac =
     (case ParseMAC X mac of
        Inl err \<Rightarrow> (ClientHardware0, Some err)
      | Inr m \<Rightarrow> (\<lparr>HardwareAddress = m, HardwareAddressPadding = replicate 10 0\<rparr>, None))"

definition ClientHardware_Encode :: "ClientHardware \<Rightarrow> byte list" where
  "ClientHardware_Encode c = HardwareAddress c @ HardwareAddressPadding c"

primrec getOption_range :: "extern \<Rightarrow> OptionInter list \<Rightarrow> byte \<Rightarrow> OptionInter option" where
  "getOption_range X [] code = None"
| "getOption_range X (option # rest) code =
     (if GetCode X option = code then Some option else getOption_range X rest code)"

definition getOption :: "extern \<Rightarrow> Message \<Rightarrow> byte \<Rightarrow> OptionInter option" where
  "getOption X m code = getOption_range X (Options m) code"

subsection \<open>Builders\<close>

text \<open>
  \<open>m.ClientMAC, _ = GenClientHardware(mac)\<close>: the builders keep the first result
  and drop the error. The loop that appends \<open>options\<close> one by one is \<open>@\<close>.
\<close>

definition GenDiscoverMessage :: "extern \<Rightarrow> string \<Rightarrow> OptionInter list \<Rightarrow> Message" where
  "GenDiscoverMessage X mac options =
     \<lparr>OpCode = 1, HardwareType = 1, HardwareLength = 6, Hops = 0,
      TransactionID = 0, SecondsElapsed = 0, Flags = 0,
      ClientIP = replicate 4 0, YourIP = replicate 4 0,
      NextServerIP = replicate 4 0, RelayAgentIP = replicate 4 0,
      ClientMAC = fst (GenClientHardware X mac),
      ServerHostName = replicate 64 0, BootFile = replicate 128 0,
      MagicCookie = MagicCookieVar,
      Options = [GenOption53 MessageTypeDiscover, GenOption55] @ options @ [GenOption255],
      MessageType = MessageTypeDiscover\<rparr>"

definition GenDeclineMessage :: "extern \<Rightarrow> string \<Rightarrow> byte list \<Rightarrow> OptionInter list \<Rightarrow> Message" where
  "GenDeclineMessage X mac declineIP options =
     \<lparr>OpCode = 1, HardwareType = 1, HardwareLength = 6, Hops = 0,
      TransactionID = 0, SecondsElapsed = 0, Flags = 0,
      ClientIP = replicate 4 0, YourIP = replicate 4 0,
      NextServerIP = replicate 4 0, RelayAgentIP = replicate 4 0,
      ClientMAC = fst (GenClientHardware X mac),
      ServerHostName = replicate 64 0, BootFile = replicate 128 0,
      MagicCookie = MagicCookieVar,
      Options = [GenOption53 MessageTypeDecline, GenOption55, GenOption50 declineIP]
                @ options @ [GenOption255],
      MessageType = MessageTypeDecline\<rparr>"

definition GenReleaseMessage :: "extern \<Rightarrow> string \<Rightarrow> byte list \<Rightarrow> OptionInter list \<Rightarrow> Message" where
  "GenReleaseMessage X mac releaseIP options =
     \<lparr>OpCode = 1, HardwareType = 1, HardwareLength = 6, Hops = 0,
      TransactionID = 0, SecondsElapsed = 0, Flags = 0,
      ClientIP = releaseIP, YourIP = replicate 4 0,
      NextServerIP = replicate 4 0, RelayAgentIP = replicate 4 0,
      ClientMAC = fst (GenClientHardware X mac),
      ServerHostName = replicate 64 0, BootFile = replicate 128 0,
      MagicCookie = MagicCookieVar,
      Options = [GenOption53 MessageTypeRelease, GenOption55] @ options @ [GenOption255],
      MessageType = MessageTypeRelease\<rparr>"

definition GenRequestMessage :: "extern \<Rightarrow> Message \<Rightarrow> OptionInter list \<Rightarrow> Message" where
  "GenRequestMessage X offer options =
     \<lparr>OpCode = 1, HardwareType = 1, HardwareLength = 6, Hops = 0,
      TransactionID = TransactionID offer, SecondsElapsed = SecondsElapsed offer + 1,
      Flags = 0,
      ClientIP = replicate 4 0, YourIP = replicate 4 0,
      NextServerIP = replicate 4 0, RelayAgentIP = replicate 4 0,
      ClientMAC = ClientMAC offer,
      ServerHostName = replicate 64 0, BootFile = replicate 128 0,
      MagicCookie = MagicCookieVar,
      Options = [GenOption53 MessageTypeRequest, GenOption55, GenOption50 (YourIP offer)]
                @ options
                @ (case getOption X offer 54 of None \<Rightarrow> [] | Some option54 \<Rightarrow> [option54])
                @ (case getOption X offer 61 of None \<Rightarrow> [] | Some option61 \<Rightarrow> [option61])
                @ [GenOption255],
      MessageType = MessageTypeRequest\<rparr>"

subsection \<open>Encode\<close>

text \<open>
  \<open>Encode_fields\<close> is the buffer when the padding loop is reached: the header fields
  in the order they are written, then every option. The loop
  \<open>for diff > 0 { buf.WriteByte(0); diff-- }\<close> is \<open>pad\<close>.
\<close>

definition Encode_fields :: "extern \<Rightarrow> Message \<Rightarrow> byte list" where
  "Encode_fields X m =
     foldl (\<lambda>buf option. buf @ Option_Encode X option)
       ([OpCode m, HardwareType m, HardwareLength m, Hops m]
        @ Uint32ToBytes (TransactionID m)
        @ Uint16ToBytes (SecondsElapsed m)
        @ Uint16ToBytes (Flags m)
        @ ClientIP m @ YourIP m @ NextServerIP m @ RelayAgentIP m
        @ ClientHardware_Encode (ClientMAC m)
        @ ServerHostName m @ BootFile m @ MagicCookie m)
       (Options m)"

function pad :: "int \<Rightarrow> byte list \<Rightarrow> byte list" where
  "pad diff buf = (if diff > 0 then pad (diff - 1) (buf @ [0]) else buf)"
  by pat_completeness auto
termination
  by (relation "measure (\<lambda>(diff, buf). nat diff)") auto

declare pad.simps [simp del]

definition Encode :: "extern \<Rightarrow> Message \<Rightarrow> byte list" where
  "Encode X m =
     (let buf = Encode_fields X m in pad (MinRequestLength - int (length buf)) buf)"

subsection \<open>Decode\<close>

text \<open>
  The option loop. \<open>option := buf.Next(1)[0]\<close> before the loop and at the end of
  every iteration is the read at the head of \<open>decode_options\<close>, so the argument is
  the buffer before the code byte. The \<open>switch\<close> has no case for a code outside
  1, 3, 6, 51, 53, 54, 58, 59, 61, 108, 138, 255; only \<open>default\<close> returns.
  The result is \<open>options\<close> and \<open>m.MessageType\<close> at that return.
\<close>

lemma bnd_cong [fundef_cong]:
  "r = r' \<Longrightarrow> (\<And>x. r' = Inr x \<Longrightarrow> f x = f' x) \<Longrightarrow> bnd r f = bnd r' f'"
  by (simp add: bnd_def split: sum.splits)

lemma Next1_Inr: "Next1 buf0 = Inr (x, buf) \<Longrightarrow> buf0 = x # buf"
  by (cases buf0) (simp_all add: Next1_def Next_def index_def bnd_def)

function decode_options ::
  "extern \<Rightarrow> OptionInter list \<Rightarrow> MessageType \<Rightarrow> byte list
     \<Rightarrow> panic + (OptionInter list \<times> MessageType)" where
  "decode_options X options mt buf0 =
     bnd (Next1 buf0) (\<lambda>(option, buf).
       if option = 1 then
         (case Next 5 buf of (b, buf') \<Rightarrow>
            bnd (Option1_Decode b) (\<lambda>opt. decode_options X (options @ [opt]) mt buf'))
       else if option = 3 then
         bnd (Next1 buf) (\<lambda>(l, buf1).
           case Next (unat l) buf1 of (b, buf') \<Rightarrow>
             bnd (Option3_Decode l b (buf' @ replicate (spare X) 0))
               (\<lambda>opt. decode_options X (options @ [opt]) mt buf'))
       else if option = 6 then
         bnd (Next1 buf) (\<lambda>(l, buf1).
           case Next (unat l) buf1 of (b, buf') \<Rightarrow>
             bnd (Option6_Decode l b (buf' @ replicate (spare X) 0))
               (\<lambda>opt. decode_options X (options @ [opt]) mt buf'))
       else if option = 51 then
         (case Next 5 buf of (b, buf') \<Rightarrow>
            bnd (Option51_Decode b) (\<lambda>opt. decode_options X (options @ [opt]) mt buf'))
       else if option = 53 then
         (case Next 2 buf of (b, buf') \<Rightarrow>
            bnd (Option53_Decode b) (\<lambda>option53.
              decode_options X (options @ [option53])
                (case option53 of Option53 c l t \<Rightarrow> t | _ \<Rightarrow> mt) buf'))
       else if option = 54 then
         (case Next 5 buf of (b, buf') \<Rightarrow>
            bnd (Option54_Decode b) (\<lambda>opt. decode_options X (options @ [opt]) mt buf'))
       else if option = 58 then
         (case Next 5 buf of (b, buf') \<Rightarrow>
            bnd (Option58_Decode b) (\<lambda>opt. decode_options X (options @ [opt]) mt buf'))
       else if option = 59 then
         (case Next 5 buf of (b, buf') \<Rightarrow>
            bnd (Option59_Decode b) (\<lambda>opt. decode_options X (options @ [opt]) mt buf'))
       else if option = 61 then
         bnd (Next1 buf) (\<lambda>(l, buf1).
           case Next (unat l) buf1 of (b, buf') \<Rightarrow>
             bnd (Option61_Decode l b) (\<lambda>opt. decode_options X (options @ [opt]) mt buf'))
       else if option = 108 then
         (case Next 5 buf of (b, buf') \<Rightarrow>
            bnd (Option108_Decode b) (\<lambda>opt. decode_options X (options @ [opt]) mt buf'))
       else if option = 138 then
         bnd (Next1 buf) (\<lambda>(l, buf1).
           case Next (unat l) buf1 of (b, buf') \<Rightarrow>
             bnd (Option138_Decode X b (buf' @ replicate (spare X) 0))
               (\<lambda>v. decode_options X (options @ [Option138 l v]) mt buf'))
       else if option = 255 then
         decode_options X (options @ [Option255 255]) mt buf
       else Inr (options, mt))"
  by pat_completeness auto

termination
proof (relation "measure (\<lambda>(X, options, mt, buf0). length buf0)", goal_cases)
  case 1
  show ?case by simp
qed (auto simp: Next_def dest!: Next1_Inr)

declare decode_options.simps [simp del]

text \<open>
  \<open>Decode\<close> assigns the fields of its receiver \<open>m\<close> in place; a panic leaves no
  message. \<open>m.Options\<close> is assigned when the option loop returns.
\<close>

definition Decode :: "extern \<Rightarrow> Message \<Rightarrow> byte list \<Rightarrow> panic + Message" where
  "Decode X m data =
     bnd (Next1 data) (\<lambda>(opCode, buf).
     bnd (Next1 buf) (\<lambda>(hardwareType, buf).
     bnd (Next1 buf) (\<lambda>(hardwareLength, buf).
     bnd (Next1 buf) (\<lambda>(hops, buf).
     case Next 4 buf of (xid, buf) \<Rightarrow>
     case Next 2 buf of (secs, buf) \<Rightarrow>
     bnd (BytesToUint16 secs) (\<lambda>secondsElapsed.
     case Next 2 buf of (fl, buf) \<Rightarrow>
     bnd (BytesToUint16 fl) (\<lambda>flags.
     case Next 4 buf of (clientIP, buf) \<Rightarrow>
     case Next 4 buf of (yourIP, buf) \<Rightarrow>
     case Next 4 buf of (nextServerIP, buf) \<Rightarrow>
     case Next 4 buf of (relayAgentIP, buf) \<Rightarrow>
     case Next 6 buf of (hardwareAddress, buf) \<Rightarrow>
     case Next 10 buf of (hardwareAddressPadding, buf) \<Rightarrow>
     case Next 64 buf of (serverHostName, buf) \<Rightarrow>
     case Next 128 buf of (bootFile, buf) \<Rightarrow>
     case Next 4 buf of (magicCookie, buf) \<Rightarrow>
     bnd (decode_options X [] (MessageType m) buf) (\<lambda>(options, messageType).
       Inr \<lparr>OpCode = opCode, HardwareType = hardwareType,
            HardwareLength = hardwareLength, Hops = hops,
            TransactionID = BytesToUint32 xid, SecondsElapsed = secondsElapsed,
            Flags = flags, ClientIP = clientIP, YourIP = yourIP,
            NextServerIP = nextServerIP, RelayAgentIP = relayAgentIP,
            ClientMAC = \<lparr>HardwareAddress = hardwareAddress,
                         HardwareAddressPadding = hardwareAddressPadding\<rparr>,
            ServerHostName = serverHostName, BootFile = bootFile,
            MagicCookie = magicCookie, Options = options,
            MessageType = messageType\<rparr>)))))))"

section \<open>ClientSession\<close>

text \<open>
  The \<open>Conn\<close> with the relay address and the retry counter. Its sockets and its
  completion channel are the transport; what a method hands to \<open>c.Write\<close> is
  returned as the message that \<open>Encode\<close> is applied to, and a \<open>true\<close> result of
  \<open>handlerResponse\<close> is what makes \<open>listenUDP\<close> signal completion.
\<close>

record Conn =
  ConnTransactionID :: uint32
  ConnSecondsElapsed :: uint16
  DhcpServerHost :: string
  CurrentMessageType :: MessageType
  HostName :: string
  Mac :: string
  MacByte :: "byte list"
  retry :: go_int
  relay :: "byte list"

definition MaxRetryNum :: int where
  "MaxRetryNum = 1"

text \<open>\<open>&&\<close> stops at the first byte that is not zero.\<close>

definition isRelay :: "Conn \<Rightarrow> panic + bool" where
  "isRelay c =
     bnd (index (relay c) 0) (\<lambda>r0. if r0 \<noteq> 0 then Inr True else
     bnd (index (relay c) 1) (\<lambda>r1. if r1 \<noteq> 0 then Inr True else
     bnd (index (relay c) 2) (\<lambda>r2. if r2 \<noteq> 0 then Inr True else
     bnd (index (relay c) 3) (\<lambda>r3. Inr (r3 \<noteq> 0)))))"

text \<open>The port of \<open>laddr\<close> that \<open>listenUDP\<close> binds.\<close>

definition listenUDP_Port :: "Conn \<Rightarrow> panic + nat" where
  "listenUDP_Port c = bnd (isRelay c) (\<lambda>r. Inr (if r then 67 else 68))"

definition Discovery :: "extern \<Rightarrow> Conn \<Rightarrow> Conn \<times> Message" where
  "Discovery X c =
     (let options = [GenOption51 7776000, GenOption57 1500, GenOption61 (MacByte c)]
                    @ (if HostName c \<noteq> [] then [GenOption12 (HostName c)] else []);
          m = GenDiscoverMessage X (Mac c) options;
          m = m\<lparr>TransactionID := ConnTransactionID c\<rparr>;
          m = m\<lparr>SecondsElapsed := ConnSecondsElapsed c\<rparr>;
          c = c\<lparr>CurrentMessageType := MessageType m\<rparr>;
          m = m\<lparr>RelayAgentIP := relay c\<rparr>
      in (c, m))"

definition Decline :: "extern \<Rightarrow> Conn \<Rightarrow> string \<Rightarrow> Conn \<times> Message" where
  "Decline X c declineIP =
     (let server = ParseIP_To4 X (DhcpServerHost c);
          options = [GenOption54 server, GenOption57 1500, GenOption61 (MacByte c)]
                    @ (if HostName c \<noteq> [] then [GenOption12 (HostName c)] else []);
          declineIp = ParseIP_To4 X declineIP;
          m = GenDeclineMessage X (Mac c) declineIp options;
          m = m\<lparr>TransactionID := ConnTransactionID c\<rparr>;
          m = m\<lparr>SecondsElapsed := ConnSecondsElapsed c\<rparr>;
          c = c\<lparr>CurrentMessageType := MessageType m\<rparr>;
          m = m\<lparr>RelayAgentIP := relay c\<rparr>
      in (c, m))"

definition Release :: "extern \<Rightarrow> Conn \<Rightarrow> string \<Rightarrow> Conn \<times> Message" where
  "Release X c release =
     (let server = ParseIP_To4 X (DhcpServerHost c);
          options = [GenOption54 server, GenOption57 1500, GenOption61 (MacByte c)]
                    @ (if HostName c \<noteq> [] then [GenOption12 (HostName c)] else []);
          releaseIP = ParseIP_To4 X release;
          m = GenReleaseMessage X (Mac c) releaseIP options;
          m = m\<lparr>TransactionID := ConnTransactionID c\<rparr>;
          m = m\<lparr>SecondsElapsed := ConnSecondsElapsed c\<rparr>;
          c = c\<lparr>CurrentMessageType := MessageType m\<rparr>;
          m = m\<lparr>RelayAgentIP := relay c\<rparr>
      in (c, m))"

text \<open>
  \<open>handlerResponse(addr, b)\<close>, with \<open>addr\<close> the string \<open>addr.String()\<close>. The result is
  the returned flag, the \<open>Conn\<close> afterwards and the messages handed to \<open>c.Write\<close>.
  An error of \<open>c.Write\<close> only selects a log line: the branch returns \<open>false\<close> with
  the same \<open>Conn\<close> either way.
\<close>

definition handlerResponse ::
  "extern \<Rightarrow> Conn \<Rightarrow> string \<Rightarrow> byte list \<Rightarrow> panic + (bool \<times> Conn \<times> Message list)" where
  "handlerResponse X c addr b =
     bnd (Decode X Message0 b) (\<lambda>m.
       if TransactionID m \<noteq> ConnTransactionID c then Inr (False, c, [])
       else if MessageType m = MessageTypeNak then
         (let c = c\<lparr>retry := retry c + 1\<rparr> in
          if CurrentMessageType c = MessageTypeDiscover \<and> sint (retry c) < MaxRetryNum
          then (case Discovery X c of (c, d) \<Rightarrow> Inr (False, c, [d]))
          else if addr \<noteq> DhcpServerHost c then Inr (False, c, [])
          else Inr (True, c, []))
       else
         (let c = c\<lparr>retry := 0\<rparr> in
          case (if CurrentMessageType c = MessageTypeDiscover \<and> MessageType m = MessageTypeOffer
                then (let options = [GenOption57 1500, GenOption51 7776000]
                                    @ (if HostName c \<noteq> [] then [GenOption12 (HostName c)] else []);
                          requestMsg = GenRequestMessage X m options;
                          c = c\<lparr>ConnSecondsElapsed := SecondsElapsed requestMsg\<rparr>;
                          c = c\<lparr>CurrentMessageType := MessageType requestMsg\<rparr>;
                          requestMsg = requestMsg\<lparr>RelayAgentIP := relay c\<rparr>
                      in (c, [requestMsg]))
                else (c, []))
          of (c, sent) \<Rightarrow>
            if CurrentMessageType c = MessageTypeRequest \<and> MessageType m = MessageTypeAck
            then Inr (True, c, sent)
            else Inr (False, c, sent)))"

section \<open>An instance for the examples\<close>

text \<open>
  The outside, fixed for the examples below: \<open>net.ParseMAC\<close> and
  \<open>net.ParseIP(s).To4()\<close> answer as Go's do on the strings the examples use and
  reject every other string, \<open>buf.Grow\<close> leaves no spare capacity, and option 138
  keeps its bytes. The general theorems hold for every \<open>extern\<close>.
\<close>

definition ext0 :: extern where
  "ext0 = \<lparr>ParseMAC = (\<lambda>s. if s = ''00:00:00:00:00:01'' then Inr [0, 0, 0, 0, 0, 1]
                            else Inl (Error ''invalid MAC address'')),
           ParseIP_To4 = (\<lambda>s. if s = ''10.0.0.1'' then [10, 0, 0, 1]
                               else if s = ''10.0.0.5'' then [10, 0, 0, 5] else []),
           spare = 0,
           Option138_Decode = (\<lambda>b behind. Inr b),
           Option138_Encode = (\<lambda>l v. [138, l] @ v),
           Option138_GetCode = (\<lambda>l v. 138)\<rparr>"

definition long_discover :: Message where
  "long_discover =
     GenDiscoverMessage ext0 ''00:00:00:00:00:01'' [GenOption12 (replicate 100 CHR ''a'')]"

text \<open>
  A reply as a server sends it, with transaction ID \<open>xid\<close> and message type \<open>t\<close>:
  the address 10.0.0.5 is offered by the server 10.0.0.1. Its datagram is its
  encoding, padded to 300 bytes. \<open>session st r\<close> is a client whose last message sent
  has type \<open>st\<close> and whose retry counter is \<open>r\<close>, in the exchange 7.
\<close>

definition reply :: "uint32 \<Rightarrow> MessageType \<Rightarrow> Message" where
  "reply xid t =
     \<lparr>OpCode = 2, HardwareType = 1, HardwareLength = 6, Hops = 0,
      TransactionID = xid, SecondsElapsed = 0, Flags = 0,
      ClientIP = [0, 0, 0, 0], YourIP = [10, 0, 0, 5],
      NextServerIP = [0, 0, 0, 0], RelayAgentIP = [0, 0, 0, 0],
      ClientMAC = \<lparr>HardwareAddress = [0, 0, 0, 0, 0, 1],
                   HardwareAddressPadding = replicate 10 0\<rparr>,
      ServerHostName = replicate 64 0, BootFile = replicate 128 0,
      MagicCookie = MagicCookieVar,
      Options = [Option53 53 1 t, Option54 54 4 [10, 0, 0, 1], Option255 255],
      MessageType = t\<rparr>"

definition session :: "MessageType \<Rightarrow> go_int \<Rightarrow> Conn" where
  "session st r =
     \<lparr>ConnTransactionID = 7, ConnSecondsElapsed = 0, DhcpServerHost = ''10.0.0.1'',
      CurrentMessageType = st, HostName = ''joker'', Mac = ''00:00:00:00:00:01'',
      MacByte = [0, 0, 0, 0, 0, 1], retry = r, relay = [0, 0, 0, 0]\<rparr>"

definition relay_session :: Conn where
  "relay_session = (session MessageTypeDiscover 0)\<lparr>relay := [10, 0, 0, 1]\<rparr>"

text \<open>
  The Discover of scenario A, with the options \<open>Conn.Discovery\<close> passes for a
  client without a host name.
\<close>

definition scenario_A :: Message where
  "scenario_A = GenDiscoverMessage ext0 ''00:00:00:00:00:01''
     [GenOption51 7776000, GenOption57 1500, GenOption61 [0, 0, 0, 0, 0, 1]]"

section \<open>Auxiliary facts\<close>

lemma foldl_write: "foldl (\<lambda>buf x. buf @ f x) a xs = a @ concat (map f xs)"
  by (induction xs arbitrary: a) simp_all

lemma Encode_fields_concat:
  "Encode_fields X m =
     [OpCode m, HardwareType m, HardwareLength m, Hops m]
     @ Uint32ToBytes (TransactionID m) @ Uint16ToBytes (SecondsElapsed m)
     @ Uint16ToBytes (Flags m)
     @ ClientIP m @ YourIP m @ NextServerIP m @ RelayAgentIP m
     @ ClientHardware_Encode (ClientMAC m)
     @ ServerHostName m @ BootFile m @ MagicCookie m
     @ concat (map (Option_Encode X) (Options m))"
  unfolding Encode_fields_def foldl_write by simp

lemma pad_replicate: "pad diff buf = buf @ replicate (nat diff) 0"
proof (induction diff buf rule: pad.induct)
  case (1 diff buf)
  show ?case
  proof (cases "diff > 0")
    case True
    then have n: "nat diff = Suc (nat (diff - 1))" by simp
    have "pad diff buf = pad (diff - 1) (buf @ [0])"
      using True by (subst pad.simps) simp
    also have "\<dots> = (buf @ [0]) @ replicate (nat (diff - 1)) 0"
      using 1 True by simp
    also have "\<dots> = buf @ replicate (nat diff) 0"
      by (simp add: n)
    finally show ?thesis .
  next
    case False
    then show ?thesis by (subst pad.simps) simp
  qed
qed

lemma getOption_range_find:
  "getOption_range X os code = find (\<lambda>option. GetCode X option = code) os"
  by (induction os) simp_all

lemma Next1_Nil: "Next1 [] = Inl IndexOutOfRange"
  by (simp add: Next1_def Next_def index_def bnd_def)

lemma Next1_Cons: "Next1 (x # xs) = Inr (x, xs)"
  by (simp add: Next1_def Next_def index_def bnd_def)

lemma decode_options_Nil: "decode_options X options mt [] = Inl IndexOutOfRange"
  by (subst decode_options.simps) (simp add: Next1_Nil bnd_def)

lemma BytesToUint16_panics_iff:
  "BytesToUint16 xs = Inl e \<longleftrightarrow> xs = [] \<and> e = IndexOutOfRange"
  by (auto simp add: BytesToUint16_def index_def bnd_def)

lemma BytesToUint16_Uint16ToBytes: "BytesToUint16 (Uint16ToBytes x) = Inr x"
  unfolding BytesToUint16_def Uint16ToBytes_def
  by (simp, rule bit_word_eqI) (auto simp add: bit_simps)

lemma BytesToUint32_Uint32ToBytes: "BytesToUint32 (Uint32ToBytes x) = x"
proof -
  have "push_bit 24 (ucast (ucast (drop_bit 24 x :: uint32) :: byte))
        OR push_bit 16 (ucast (ucast (drop_bit 16 x :: uint32) :: byte))
        OR push_bit 8 (ucast (ucast (drop_bit 8 x :: uint32) :: byte))
        OR ucast (ucast x :: byte) = x"
  proof (rule bit_word_eqI)
    fix n :: nat
    assume "n < LENGTH(32)"
    then consider "n < 8" | "8 \<le> n \<and> n < 16" | "16 \<le> n \<and> n < 24" | "24 \<le> n \<and> n < 32"
      by fastforce
    then show "bit (push_bit 24 (ucast (ucast (drop_bit 24 x :: uint32) :: byte))
        OR push_bit 16 (ucast (ucast (drop_bit 16 x :: uint32) :: byte))
        OR push_bit 8 (ucast (ucast (drop_bit 8 x :: uint32) :: byte))
        OR (ucast (ucast x :: byte) :: uint32)) n = bit x n"
      by cases (auto simp add: bit_simps)
  qed
  then show ?thesis
    by (simp add: BytesToUint32_def Uint32ToBytes_def)
qed

lemma length_Uint32ToBytes [simp]: "length (Uint32ToBytes x) = 4"
  by (simp add: Uint32ToBytes_def)

lemma length_Uint16ToBytes [simp]: "length (Uint16ToBytes x) = 2"
  by (simp add: Uint16ToBytes_def)

lemma Next_append: "length a = n \<Longrightarrow> Next n (a @ b) = (a, b)"
  by (simp add: Next_def)

text \<open>A well-formed header is read back field by field; the options follow.\<close>

lemma Decode_header:
  assumes "length cip = 4" "length yip = 4" "length sip = 4" "length gip = 4"
    "length hw = 6" "length hwpad = 10" "length sname = 64" "length file = 128"
    "length cookie = 4"
  shows "Decode X m0 ([op, ht, hl, hops] @ Uint32ToBytes xid @ Uint16ToBytes secs
            @ Uint16ToBytes fl @ cip @ yip @ sip @ gip @ hw @ hwpad @ sname @ file
            @ cookie @ rest)
         = bnd (decode_options X [] (MessageType m0) rest) (\<lambda>(options, messageType).
             Inr \<lparr>OpCode = op, HardwareType = ht, HardwareLength = hl, Hops = hops,
                  TransactionID = xid, SecondsElapsed = secs, Flags = fl,
                  ClientIP = cip, YourIP = yip, NextServerIP = sip, RelayAgentIP = gip,
                  ClientMAC = \<lparr>HardwareAddress = hw, HardwareAddressPadding = hwpad\<rparr>,
                  ServerHostName = sname, BootFile = file, MagicCookie = cookie,
                  Options = options, MessageType = messageType\<rparr>)"
  using assms
  by (simp add: Decode_def Next1_Cons Next_append bnd_def BytesToUint16_Uint16ToBytes
      BytesToUint32_Uint32ToBytes split: sum.splits)

lemma Decode_Encode:
  assumes "length (ClientIP m) = 4" "length (YourIP m) = 4" "length (NextServerIP m) = 4"
    "length (RelayAgentIP m) = 4"
    "length (HardwareAddress (ClientMAC m)) = 6"
    "length (HardwareAddressPadding (ClientMAC m)) = 10"
    "length (ServerHostName m) = 64" "length (BootFile m) = 128"
    "length (MagicCookie m) = 4"
    and "\<And>k. decode_options X [] (MessageType m0)
             (concat (map (Option_Encode X) (Options m)) @ replicate k 0) = Inr (os, mt)"
  shows "Decode X m0 (Encode X m) = Inr (m\<lparr>Options := os, MessageType := mt\<rparr>)"
proof -
  define k where "k = 300 - length (Encode_fields X m)"
  have "Encode X m = Encode_fields X m @ replicate k 0"
    by (simp add: Encode_def Let_def pad_replicate MinRequestLength_def nat_diff_distrib' k_def)
  then have E: "Encode X m =
     [OpCode m, HardwareType m, HardwareLength m, Hops m]
     @ Uint32ToBytes (TransactionID m) @ Uint16ToBytes (SecondsElapsed m)
     @ Uint16ToBytes (Flags m)
     @ ClientIP m @ YourIP m @ NextServerIP m @ RelayAgentIP m
     @ HardwareAddress (ClientMAC m) @ HardwareAddressPadding (ClientMAC m)
     @ ServerHostName m @ BootFile m @ MagicCookie m
     @ (concat (map (Option_Encode X) (Options m)) @ replicate k 0)"
    by (simp add: Encode_fields_concat ClientHardware_Encode_def)
  have "Decode X m0 (Encode X m)
        = Inr \<lparr>OpCode = OpCode m, HardwareType = HardwareType m,
               HardwareLength = HardwareLength m, Hops = Hops m,
               TransactionID = TransactionID m, SecondsElapsed = SecondsElapsed m,
               Flags = Flags m, ClientIP = ClientIP m, YourIP = YourIP m,
               NextServerIP = NextServerIP m, RelayAgentIP = RelayAgentIP m,
               ClientMAC = \<lparr>HardwareAddress = HardwareAddress (ClientMAC m),
                  HardwareAddressPadding = HardwareAddressPadding (ClientMAC m)\<rparr>,
               ServerHostName = ServerHostName m, BootFile = BootFile m,
               MagicCookie = MagicCookie m, Options = os, MessageType = mt\<rparr>"
    unfolding E by (subst Decode_header [OF assms(1-9)]) (simp add: assms(10) bnd_def)
  then show ?thesis by simp
qed

text \<open>The option loop at option 53 followed by option 55, at 255, and at a code
  the \<open>switch\<close> has no case for.\<close>

lemma decode_options_53_then_55:
  "decode_options X [] mt (53 # l # t # 55 # rest) = Inr ([Option53 53 l t], t)"
  apply (subst decode_options.simps)
  apply (simp add: Next1_Cons bnd_def Next_def Option53_Decode_def index_def)
  apply (subst decode_options.simps)
  apply (simp add: Next1_Cons bnd_def)
  done

lemma decode_options_End:
  "decode_options X options mt (255 # buf)
   = decode_options X (options @ [Option255 255]) mt buf"
  by (subst decode_options.simps) (simp add: Next1_Cons bnd_def)

lemma decode_options_unrecognised:
  assumes "code \<notin> {1, 3, 6, 51, 53, 54, 58, 59, 61, 108, 138, 255}"
  shows "decode_options X options mt (code # buf) = Inr (options, mt)"
  using assms by (subst decode_options.simps) (simp add: Next1_Cons bnd_def)

lemma length4E:
  assumes "length xs = 4"
  obtains a b c d where "xs = [a, b, c, d]"
  using assms by (auto simp add: numeral_eq_Suc length_Suc_conv)

lemma isRelay_4:
  assumes "length (relay c) = 4"
  shows "isRelay c = Inr (relay c \<noteq> [0, 0, 0, 0])"
proof -
  from assms obtain r0 r1 r2 r3 where "relay c = [r0, r1, r2, r3]"
    by (rule length4E)
  then show ?thesis
    by (simp add: isRelay_def index_def bnd_def)
qed

lemma giaddr_offset:
  assumes "length (ClientIP m) = 4" "length (YourIP m) = 4" "length (NextServerIP m) = 4"
    "length (RelayAgentIP m) = 4"
  shows "take 4 (drop 24 (Encode X m)) = RelayAgentIP m"
  using assms
  by (simp add: Encode_def Let_def pad_replicate Encode_fields_concat)

section \<open>The Request built from an offer\<close>

text \<open>
  C4. For every offer and every list of extra options, \<open>GenRequestMessage\<close> takes
  over the offer's transaction ID and client hardware field, its elapsed seconds
  are the offer's plus 1 in 16-bit arithmetic (65535 wraps to 0), and its options
  are, in order: option 53 = Request, option 55 with the default parameter list,
  option 50 carrying the offer's \<open>YourIP\<close>, the extra options, the first option of
  the offer whose code is 54 and the first whose code is 61 (each unchanged, and
  only when the offer has one), then option 255.
\<close>

theorem GenRequestMessage_from_offer:
  "TransactionID (GenRequestMessage X offer options) = TransactionID offer
   \<and> ClientMAC (GenRequestMessage X offer options) = ClientMAC offer
   \<and> SecondsElapsed (GenRequestMessage X offer options) = SecondsElapsed offer + 1
   \<and> unat (SecondsElapsed (GenRequestMessage X offer options))
       = (unat (SecondsElapsed offer) + 1) mod 65536
   \<and> Options (GenRequestMessage X offer options)
       = [Option53 53 1 MessageTypeRequest,
          Option55 55 10 [1, 3, 6, 15, 46, 108, 114, 119, 121, 252],
          Option50 50 4 (YourIP offer)]
         @ options
         @ (case find (\<lambda>option. GetCode X option = 54) (Options offer) of
              None \<Rightarrow> [] | Some option54 \<Rightarrow> [option54])
         @ (case find (\<lambda>option. GetCode X option = 61) (Options offer) of
              None \<Rightarrow> [] | Some option61 \<Rightarrow> [option61])
         @ [Option255 255]"
  by (simp add: GenRequestMessage_def getOption_def getOption_range_find GenOption53_def
      GenOption55_def GenOption50_def GenOption255_def unat_word_ariths)

section \<open>Padding\<close>

text \<open>
  C6. For every message, the encoding has at least 300 bytes: it is the bytes of
  the fields and options followed by as many zero bytes as are missing to 300.
  When the fields and options alone take more than 300 bytes, nothing is cut and
  nothing is added: the encoding is exactly those bytes.
\<close>

theorem Encode_padding:
  "300 \<le> length (Encode X m)
   \<and> Encode X m = Encode_fields X m @ replicate (300 - length (Encode_fields X m)) 0
   \<and> (300 < length (Encode_fields X m) \<longrightarrow>
        length (Encode X m) = length (Encode_fields X m) \<and> Encode X m = Encode_fields X m)"
  by (simp add: Encode_def Let_def pad_replicate MinRequestLength_def nat_diff_distrib')

theorem Encode_padding_witness:
  "300 < length (Encode_fields ext0 long_discover)
   \<and> length (Encode ext0 long_discover) = length (Encode_fields ext0 long_discover)
   \<and> Encode ext0 long_discover = Encode_fields ext0 long_discover"
proof -
  have h: "300 < length (Encode_fields ext0 long_discover)"
    by code_simp
  show ?thesis
    using h Encode_padding [of ext0 long_discover] by simp
qed

section \<open>A MAC string that does not parse\<close>

text \<open>
  C10. When \<open>net.ParseMAC\<close> rejects the MAC string, \<open>GenClientHardware\<close> returns the
  zero \<open>ClientHardware\<close> with the error, and \<open>GenDiscoverMessage\<close>,
  \<open>GenDeclineMessage\<close> and \<open>GenReleaseMessage\<close> drop the error and return a message
  whose client hardware field is that zero value. It encodes to no bytes instead
  of 16, so the header is short: in the encoded Discover and Decline the magic
  cookie stands at offset 220 instead of 236.
\<close>

theorem builders_discard_mac_error:
  assumes "ParseMAC X mac = Inl err"
  shows "GenClientHardware X mac = (ClientHardware0, Some err)
   \<and> ClientMAC (GenDiscoverMessage X mac options) = ClientHardware0
   \<and> ClientMAC (GenDeclineMessage X mac ip options) = ClientHardware0
   \<and> ClientMAC (GenReleaseMessage X mac ip options) = ClientHardware0
   \<and> ClientHardware_Encode ClientHardware0 = []
   \<and> take 4 (drop 220 (Encode X (GenDiscoverMessage X mac options))) = MagicCookieVar
   \<and> take 4 (drop 220 (Encode X (GenDeclineMessage X mac ip options))) = MagicCookieVar"
proof -
  have g: "GenClientHardware X mac = (ClientHardware0, Some err)"
    using assms by (simp add: GenClientHardware_def)
  have e: "ClientHardware_Encode ClientHardware0 = []"
    by (simp add: ClientHardware_Encode_def ClientHardware0_def)
  have d1: "take 4 (drop 220 (Encode X (GenDiscoverMessage X mac options))) = MagicCookieVar"
    by (simp add: Encode_def Let_def pad_replicate Encode_fields_concat GenDiscoverMessage_def g e
        Uint32ToBytes_def Uint16ToBytes_def MagicCookieVar_def)
  have d2: "take 4 (drop 220 (Encode X (GenDeclineMessage X mac ip options))) = MagicCookieVar"
    by (simp add: Encode_def Let_def pad_replicate Encode_fields_concat GenDeclineMessage_def g e
        Uint32ToBytes_def Uint16ToBytes_def MagicCookieVar_def)
  show ?thesis
    using g e d1 d2
    by (simp add: GenDiscoverMessage_def GenDeclineMessage_def GenReleaseMessage_def)
qed

theorem builders_discard_mac_error_witness:
  "ParseMAC ext0 ''zz'' = Inl (Error ''invalid MAC address'')
   \<and> ClientMAC (GenDiscoverMessage ext0 ''zz'' []) = ClientHardware0
   \<and> ClientMAC (GenDeclineMessage ext0 ''zz'' [10, 0, 0, 5] []) = ClientHardware0
   \<and> ClientMAC (GenReleaseMessage ext0 ''zz'' [10, 0, 0, 5] []) = ClientHardware0
   \<and> take 4 (drop 220 (Encode ext0 (GenDiscoverMessage ext0 ''zz'' []))) = MagicCookieVar"
proof -
  have h: "ParseMAC ext0 ''zz'' = Inl (Error ''invalid MAC address'')"
    by (simp add: ext0_def)
  show ?thesis
    using h builders_discard_mac_error [OF h, of "[]" "[10, 0, 0, 5]"] by simp
qed

section \<open>Datagrams shorter than the header\<close>

text \<open>
  C1. The claim asks that a datagram shorter than the fixed header is decoded
  without a crash. The decoder checks no length: \<open>buf.Next(1)[0]\<close> indexes an empty
  slice once the buffer is exhausted, and \<open>BytesToUint16\<close> reads \<open>data[0]\<close> of an
  empty slice. So every datagram of at most 240 bytes, whatever its content,
  makes \<open>Decode\<close> panic with an index out of range; nothing recovers the panic.
\<close>

theorem Decode_short_datagram_panics:
  assumes "length data \<le> 240"
  shows "Decode X m data = Inl IndexOutOfRange"
proof (cases data)
  case Nil
  then show ?thesis by (simp add: Decode_def Next1_Nil bnd_def)
next
  case c1: (Cons a r1)
  show ?thesis
  proof (cases r1)
    case Nil
    then show ?thesis using c1 by (simp add: Decode_def Next1_Nil Next1_Cons bnd_def)
  next
    case c2: (Cons b r2)
    show ?thesis
    proof (cases r2)
      case Nil
      then show ?thesis using c1 c2 by (simp add: Decode_def Next1_Nil Next1_Cons bnd_def)
    next
      case c3: (Cons c r3)
      show ?thesis
      proof (cases r3)
        case Nil
        then show ?thesis
          using c1 c2 c3 by (simp add: Decode_def Next1_Nil Next1_Cons bnd_def)
      next
        case c4: (Cons d r4)
        have e: "drop 236 r4 = []" using assms c1 c2 c3 c4 by simp
        show ?thesis
          unfolding Decode_def c1 c2 c3 c4
          by (simp add: Next1_Cons bnd_def Next_def e decode_options_Nil
              BytesToUint16_panics_iff split: sum.splits)
      qed
    qed
  qed
qed

theorem Decode_short_datagram_panics_witness:
  "length [2, 1, 6, 0, 0, 0, 0, 7, 0, 0 :: byte] \<le> 240
   \<and> Decode ext0 Message0 [2, 1, 6, 0, 0, 0, 0, 7, 0, 0] = Inl IndexOutOfRange"
  using Decode_short_datagram_panics [of "[2, 1, 6, 0, 0, 0, 0, 7, 0, 0]" ext0 Message0]
  by simp

section \<open>Handling a reply\<close>

text \<open>
  C5. Whatever the state of the session and the type of the message: when the
  datagram decodes to a message whose transaction ID is not the session's,
  \<open>handlerResponse\<close> returns \<open>false\<close> (no completion), leaves the whole \<open>Conn\<close> as it
  was (current message type, retry counter and elapsed seconds included) and
  writes nothing.
\<close>

theorem mismatched_transaction_ignored:
  assumes "Decode X Message0 b = Inr m" and "TransactionID m \<noteq> ConnTransactionID c"
  shows "handlerResponse X c addr b = Inr (False, c, [])"
  using assms by (simp add: handlerResponse_def bnd_def)

theorem mismatched_transaction_ignored_witness:
  "Decode ext0 Message0 (Encode ext0 (reply 8 MessageTypeAck)) = Inr (reply 8 MessageTypeAck)
   \<and> TransactionID (reply 8 MessageTypeAck) \<noteq> ConnTransactionID (session MessageTypeRequest 0)
   \<and> handlerResponse ext0 (session MessageTypeRequest 0) ''10.0.0.1:67''
        (Encode ext0 (reply 8 MessageTypeAck))
       = Inr (False, session MessageTypeRequest 0, [])"
proof -
  have d: "Decode ext0 Message0 (Encode ext0 (reply 8 MessageTypeAck))
           = Inr (reply 8 MessageTypeAck)"
    by code_simp
  have t: "TransactionID (reply 8 MessageTypeAck)
           \<noteq> ConnTransactionID (session MessageTypeRequest 0)"
    by (simp add: reply_def session_def)
  show ?thesis
    using d t mismatched_transaction_ignored [OF d t] by simp
qed

text \<open>
  C9, as the code has it. A message of the session's transaction that is not a
  NAK, not an Offer while the last message sent is a Discover, and not an Ack
  while the last message sent is a Request: \<open>handlerResponse\<close> returns \<open>false\<close>,
  writes nothing and leaves the current message type and the elapsed seconds as
  they were, but it sets the retry counter to 0 (\<open>c.retry = 0\<close> runs for every
  message that is not a NAK).
\<close>

theorem unlisted_combination_resets_retry:
  assumes "Decode X Message0 b = Inr m"
    and "TransactionID m = ConnTransactionID c"
    and "MessageType m \<noteq> MessageTypeNak"
    and "\<not> (CurrentMessageType c = MessageTypeDiscover \<and> MessageType m = MessageTypeOffer)"
    and "\<not> (CurrentMessageType c = MessageTypeRequest \<and> MessageType m = MessageTypeAck)"
  shows "handlerResponse X c addr b = Inr (False, c\<lparr>retry := 0\<rparr>, [])"
  using assms by (auto simp add: handlerResponse_def bnd_def Let_def)

theorem unlisted_combination_resets_retry_witness:
  "Decode ext0 Message0 (Encode ext0 (reply 7 MessageTypeAck)) = Inr (reply 7 MessageTypeAck)
   \<and> TransactionID (reply 7 MessageTypeAck) = ConnTransactionID (session MessageTypeDiscover 0)
   \<and> MessageType (reply 7 MessageTypeAck) \<noteq> MessageTypeNak
   \<and> \<not> (CurrentMessageType (session MessageTypeDiscover 0) = MessageTypeDiscover
          \<and> MessageType (reply 7 MessageTypeAck) = MessageTypeOffer)
   \<and> \<not> (CurrentMessageType (session MessageTypeDiscover 0) = MessageTypeRequest
          \<and> MessageType (reply 7 MessageTypeAck) = MessageTypeAck)
   \<and> handlerResponse ext0 (session MessageTypeDiscover 0) ''10.0.0.1:67''
        (Encode ext0 (reply 7 MessageTypeAck))
       = Inr (False, (session MessageTypeDiscover 0)\<lparr>retry := 0\<rparr>, [])"
proof -
  have d: "Decode ext0 Message0 (Encode ext0 (reply 7 MessageTypeAck))
           = Inr (reply 7 MessageTypeAck)"
    by code_simp
  have t: "TransactionID (reply 7 MessageTypeAck)
           = ConnTransactionID (session MessageTypeDiscover 0)"
    by (simp add: reply_def session_def)
  have n: "MessageType (reply 7 MessageTypeAck) \<noteq> MessageTypeNak"
    by (simp add: reply_def)
  have o: "\<not> (CurrentMessageType (session MessageTypeDiscover 0) = MessageTypeDiscover
               \<and> MessageType (reply 7 MessageTypeAck) = MessageTypeOffer)"
    by (simp add: reply_def)
  have a: "\<not> (CurrentMessageType (session MessageTypeDiscover 0) = MessageTypeRequest
               \<and> MessageType (reply 7 MessageTypeAck) = MessageTypeAck)"
    by (simp add: session_def)
  show ?thesis
    using d t n o a unlisted_combination_resets_retry [OF d t n o a] by simp
qed

text \<open>
  The claim C9 as it is written fails: a second Offer that reaches a session
  waiting for its Ack, after a NAK from another address had been ignored (retry
  counter 1), is no listed transition, and the retry counter does not remain as
  it was.
\<close>

theorem retry_counter_not_kept:
  "TransactionID (reply 7 MessageTypeOffer) = ConnTransactionID (session MessageTypeRequest 1)
   \<and> CurrentMessageType (session MessageTypeRequest 1) = MessageTypeRequest
   \<and> MessageType (reply 7 MessageTypeOffer) = MessageTypeOffer
   \<and> retry (session MessageTypeRequest 1) = 1
   \<and> handlerResponse ext0 (session MessageTypeRequest 1) ''10.0.0.1:67''
        (Encode ext0 (reply 7 MessageTypeOffer))
       = Inr (False, session MessageTypeRequest 0, [])
   \<and> retry (session MessageTypeRequest 0) \<noteq> retry (session MessageTypeRequest 1)"
  by code_simp

text \<open>
  C3. The claim asks for one re-sent Discover on the first NAK. The code
  increments the retry counter before it tests \<open>c.retry < MaxRetryNum\<close>, and
  \<open>MaxRetryNum\<close> is 1: for a counter that is not negative the test fails, so a
  NAK of the session's transaction never re-sends a Discover. Already the first
  NAK ends the session when \<open>addr.String()\<close> is the configured server host, and is
  ignored otherwise; either way the counter is incremented and nothing is written.
\<close>

theorem nak_never_resends:
  assumes "Decode X Message0 b = Inr m"
    and "TransactionID m = ConnTransactionID c"
    and "MessageType m = MessageTypeNak"
    and "0 \<le> sint (retry c)" and "sint (retry c) < 2 ^ 63 - 1"
  shows "handlerResponse X c addr b
         = Inr (addr = DhcpServerHost c, c\<lparr>retry := retry c + 1\<rparr>, [])"
proof -
  have "sint (retry c + 1) = sint (retry c) + 1"
    using assms(4,5) by (simp add: sint_word_ariths signed_take_bit_int_eq_self)
  then have "\<not> sint (retry c + 1) < MaxRetryNum"
    using assms(4) by (simp add: MaxRetryNum_def)
  then show ?thesis
    using assms(1-3) by (simp add: handlerResponse_def bnd_def Let_def)
qed

theorem nak_never_resends_witness:
  "Decode ext0 Message0 (Encode ext0 (reply 7 MessageTypeNak)) = Inr (reply 7 MessageTypeNak)
   \<and> TransactionID (reply 7 MessageTypeNak) = ConnTransactionID (session MessageTypeDiscover 0)
   \<and> MessageType (reply 7 MessageTypeNak) = MessageTypeNak
   \<and> 0 \<le> sint (retry (session MessageTypeDiscover 0))
   \<and> sint (retry (session MessageTypeDiscover 0)) < 2 ^ 63 - 1
   \<and> handlerResponse ext0 (session MessageTypeDiscover 0) ''10.0.0.1''
        (Encode ext0 (reply 7 MessageTypeNak))
       = Inr (True, session MessageTypeDiscover 1, [])
   \<and> handlerResponse ext0 (session MessageTypeDiscover 0) ''10.0.0.1:67''
        (Encode ext0 (reply 7 MessageTypeNak))
       = Inr (False, session MessageTypeDiscover 1, [])"
proof -
  have d: "Decode ext0 Message0 (Encode ext0 (reply 7 MessageTypeNak))
           = Inr (reply 7 MessageTypeNak)"
    by code_simp
  have t: "TransactionID (reply 7 MessageTypeNak)
           = ConnTransactionID (session MessageTypeDiscover 0)"
    by (simp add: reply_def session_def)
  have n: "MessageType (reply 7 MessageTypeNak) = MessageTypeNak"
    by (simp add: reply_def)
  have l: "0 \<le> sint (retry (session MessageTypeDiscover 0))"
    by (simp add: session_def)
  have u: "sint (retry (session MessageTypeDiscover 0)) < 2 ^ 63 - 1"
    by (simp add: session_def)
  show ?thesis
    using d t n l u
      nak_never_resends [OF d t n l u, of "''10.0.0.1''"]
      nak_never_resends [OF d t n l u, of "''10.0.0.1:67''"]
    by (simp add: session_def)
qed

section \<open>Decoding what the builders encode\<close>

text \<open>
  C2, as the code has it. Take a message of one of the four builders, with a MAC
  string that parses to 6 bytes (for \<open>GenReleaseMessage\<close> a released address of 4
  bytes, for \<open>GenRequestMessage\<close> an offer whose hardware field has 6 and 10
  bytes). Decoding its encoding gives back every header field, from the opcode to
  the magic cookie, and the message type, but of the options only the leading
  option 53: the \<open>switch\<close> of \<open>Message.Decode\<close> has no case for option 55, which
  every builder puts second, so the loop returns there and option 55 and all
  options behind it (option 61 among them) are not recovered.
\<close>

theorem builder_round_trip_keeps_header_and_option_53:
  assumes "ParseMAC X mac = Inr hw" and "length hw = 6" and "length releaseIP = 4"
    and "length (HardwareAddress (ClientMAC offer)) = 6"
    and "length (HardwareAddressPadding (ClientMAC offer)) = 10"
  shows "Decode X m0 (Encode X (GenDiscoverMessage X mac options))
         = Inr ((GenDiscoverMessage X mac options)
                  \<lparr>Options := [Option53 53 1 MessageTypeDiscover]\<rparr>)
   \<and> Decode X m0 (Encode X (GenDeclineMessage X mac declineIP options))
         = Inr ((GenDeclineMessage X mac declineIP options)
                  \<lparr>Options := [Option53 53 1 MessageTypeDecline]\<rparr>)
   \<and> Decode X m0 (Encode X (GenReleaseMessage X mac releaseIP options))
         = Inr ((GenReleaseMessage X mac releaseIP options)
                  \<lparr>Options := [Option53 53 1 MessageTypeRelease]\<rparr>)
   \<and> Decode X m0 (Encode X (GenRequestMessage X offer options))
         = Inr ((GenRequestMessage X offer options)
                  \<lparr>Options := [Option53 53 1 MessageTypeRequest]\<rparr>)"
proof -
  have g: "GenClientHardware X mac
           = (\<lparr>HardwareAddress = hw, HardwareAddressPadding = replicate 10 0\<rparr>, None)"
    using assms(1) by (simp add: GenClientHardware_def)
  have 1: "Decode X m0 (Encode X (GenDiscoverMessage X mac options))
         = Inr ((GenDiscoverMessage X mac options)
                  \<lparr>Options := [Option53 53 1 MessageTypeDiscover],
                   MessageType := MessageTypeDiscover\<rparr>)"
    by (rule Decode_Encode)
      (simp_all add: GenDiscoverMessage_def g assms MagicCookieVar_def GenOption53_def
        GenOption55_def decode_options_53_then_55)
  have 2: "Decode X m0 (Encode X (GenDeclineMessage X mac declineIP options))
         = Inr ((GenDeclineMessage X mac declineIP options)
                  \<lparr>Options := [Option53 53 1 MessageTypeDecline],
                   MessageType := MessageTypeDecline\<rparr>)"
    by (rule Decode_Encode)
      (simp_all add: GenDeclineMessage_def g assms MagicCookieVar_def GenOption53_def
        GenOption55_def decode_options_53_then_55)
  have 3: "Decode X m0 (Encode X (GenReleaseMessage X mac releaseIP options))
         = Inr ((GenReleaseMessage X mac releaseIP options)
                  \<lparr>Options := [Option53 53 1 MessageTypeRelease],
                   MessageType := MessageTypeRelease\<rparr>)"
    by (rule Decode_Encode)
      (simp_all add: GenReleaseMessage_def g assms MagicCookieVar_def GenOption53_def
        GenOption55_def decode_options_53_then_55)
  have 4: "Decode X m0 (Encode X (GenRequestMessage X offer options))
         = Inr ((GenRequestMessage X offer options)
                  \<lparr>Options := [Option53 53 1 MessageTypeRequest],
                   MessageType := MessageTypeRequest\<rparr>)"
    by (rule Decode_Encode)
      (simp_all add: GenRequestMessage_def assms MagicCookieVar_def GenOption53_def
        GenOption55_def decode_options_53_then_55)
  show ?thesis
    using 1 2 3 4
    by (simp add: GenDiscoverMessage_def GenDeclineMessage_def GenReleaseMessage_def
        GenRequestMessage_def)
qed

theorem builder_round_trip_keeps_header_and_option_53_witness:
  "ParseMAC ext0 ''00:00:00:00:00:01'' = Inr [0, 0, 0, 0, 0, 1]
   \<and> length [0, 0, 0, 0, 0, 1 :: byte] = 6
   \<and> length [10, 0, 0, 5 :: byte] = 4
   \<and> length (HardwareAddress (ClientMAC (reply 7 MessageTypeOffer))) = 6
   \<and> length (HardwareAddressPadding (ClientMAC (reply 7 MessageTypeOffer))) = 10
   \<and> Decode ext0 Message0 (Encode ext0 (GenDiscoverMessage ext0 ''00:00:00:00:00:01'' []))
       = Inr ((GenDiscoverMessage ext0 ''00:00:00:00:00:01'' [])
                \<lparr>Options := [Option53 53 1 MessageTypeDiscover]\<rparr>)
   \<and> Decode ext0 Message0
        (Encode ext0 (GenDeclineMessage ext0 ''00:00:00:00:00:01'' [10, 0, 0, 5] []))
       = Inr ((GenDeclineMessage ext0 ''00:00:00:00:00:01'' [10, 0, 0, 5] [])
                \<lparr>Options := [Option53 53 1 MessageTypeDecline]\<rparr>)
   \<and> Decode ext0 Message0
        (Encode ext0 (GenReleaseMessage ext0 ''00:00:00:00:00:01'' [10, 0, 0, 5] []))
       = Inr ((GenReleaseMessage ext0 ''00:00:00:00:00:01'' [10, 0, 0, 5] [])
                \<lparr>Options := [Option53 53 1 MessageTypeRelease]\<rparr>)
   \<and> Decode ext0 Message0 (Encode ext0 (GenRequestMessage ext0 (reply 7 MessageTypeOffer) []))
       = Inr ((GenRequestMessage ext0 (reply 7 MessageTypeOffer) [])
                \<lparr>Options := [Option53 53 1 MessageTypeRequest]\<rparr>)"
proof -
  have p: "ParseMAC ext0 ''00:00:00:00:00:01'' = Inr [0, 0, 0, 0, 0, 1]"
    by (simp add: ext0_def)
  have h: "length [0, 0, 0, 0, 0, 1 :: byte] = 6"
    by simp
  have i: "length [10, 0, 0, 5 :: byte] = 4"
    by simp
  have a: "length (HardwareAddress (ClientMAC (reply 7 MessageTypeOffer))) = 6"
    by (simp add: reply_def)
  have b: "length (HardwareAddressPadding (ClientMAC (reply 7 MessageTypeOffer))) = 10"
    by (simp add: reply_def)
  show ?thesis
    using p h i a b
      builder_round_trip_keeps_header_and_option_53
        [OF p h i a b, of Message0 "[]" "[10, 0, 0, 5]"]
    by simp
qed

text \<open>
  The claim C2 as it is written fails on the Discover of scenario A: the message
  carries option 55 and option 61, the decoded encoding carries neither, so it is
  not the message that was encoded.
\<close>

theorem discover_round_trip_loses_options:
  "Decode ext0 Message0 (Encode ext0 scenario_A)
     = Inr (scenario_A\<lparr>Options := [Option53 53 1 MessageTypeDiscover]\<rparr>)
   \<and> Decode ext0 Message0 (Encode ext0 scenario_A) \<noteq> Inr scenario_A
   \<and> getOption ext0 scenario_A 55
       = Some (Option55 55 10 [1, 3, 6, 15, 46, 108, 114, 119, 121, 252])
   \<and> getOption ext0 scenario_A 61 = Some (Option61 61 7 1 [0, 0, 0, 0, 0, 1])
   \<and> getOption ext0 (scenario_A\<lparr>Options := [Option53 53 1 MessageTypeDiscover]\<rparr>) 55 = None
   \<and> getOption ext0 (scenario_A\<lparr>Options := [Option53 53 1 MessageTypeDiscover]\<rparr>) 61 = None"
  by code_simp

section \<open>The End option\<close>

text \<open>
  C7. The claim asks that option 255 stops the option parsing. In the code the
  case for 255 appends the End option and falls out of the \<open>switch\<close>, and the loop
  reads the next code byte: only a code without a case returns. So the 250 bytes
  of an Ack that ends with its End option, without padding, make \<open>Decode\<close> panic
  on the exhausted buffer, and bytes behind an End option are parsed as options:
  an option 53 there replaces the message type. (A code without a case does stop
  the loop with the options parsed so far, see \<open>decode_options_unrecognised\<close>;
  in a padded message that code is the first zero byte of the padding.)
\<close>

theorem end_option_does_not_stop_parsing:
  "decode_options X options mt (255 # buf)
     = decode_options X (options @ [Option255 255]) mt buf
   \<and> length (Encode_fields ext0 (reply 7 MessageTypeAck)) = 250
   \<and> last (Encode_fields ext0 (reply 7 MessageTypeAck)) = 255
   \<and> Decode ext0 Message0 (Encode_fields ext0 (reply 7 MessageTypeAck)) = Inl IndexOutOfRange
   \<and> Decode ext0 Message0 (Encode_fields ext0 (reply 7 MessageTypeAck) @ [53, 1, 6, 0])
       = Inr ((reply 7 MessageTypeNak)
               \<lparr>Options := [Option53 53 1 MessageTypeAck, Option54 54 4 [10, 0, 0, 1],
                            Option255 255, Option53 53 1 MessageTypeNak]\<rparr>)"
proof -
  have "length (Encode_fields ext0 (reply 7 MessageTypeAck)) = 250"
    by code_simp
  moreover have "last (Encode_fields ext0 (reply 7 MessageTypeAck)) = 255"
    by code_simp
  moreover have "Decode ext0 Message0 (Encode_fields ext0 (reply 7 MessageTypeAck))
                 = Inl IndexOutOfRange"
    by code_simp
  moreover have "Decode ext0 Message0 (Encode_fields ext0 (reply 7 MessageTypeAck) @ [53, 1, 6, 0])
       = Inr ((reply 7 MessageTypeNak)
               \<lparr>Options := [Option53 53 1 MessageTypeAck, Option54 54 4 [10, 0, 0, 1],
                            Option255 255, Option53 53 1 MessageTypeNak]\<rparr>)"
    by code_simp
  ultimately show ?thesis
    by (simp add: decode_options_End)
qed

section \<open>Relay agent addressing\<close>

text \<open>
  C8. For a session whose relay address has its 4 bytes: the Discover, Decline
  and Release it builds and the Request it builds on an Offer all carry the relay
  address in \<open>RelayAgentIP\<close>; in the encoding of the Discover, the Decline and the
  Request it stands at bytes 24 to 27, the giaddr field, and so it does in the
  Release when the released address parsed to 4 bytes. The session is relayed
  exactly when the relay address is not 0.0.0.0, and \<open>listenUDP\<close> binds port 67
  when it is relayed and port 68 when it is not.
\<close>

theorem relay_propagation:
  assumes "length (relay c) = 4"
  shows "RelayAgentIP (snd (Discovery X c)) = relay c
   \<and> RelayAgentIP (snd (Decline X c declineIP)) = relay c
   \<and> RelayAgentIP (snd (Release X c release)) = relay c
   \<and> (Decode X Message0 b = Inr m \<and> TransactionID m = ConnTransactionID c
        \<and> CurrentMessageType c = MessageTypeDiscover \<and> MessageType m = MessageTypeOffer
      \<longrightarrow> (\<exists>c' requestMsg. handlerResponse X c addr b = Inr (False, c', [requestMsg])
             \<and> MessageType requestMsg = MessageTypeRequest
             \<and> RelayAgentIP requestMsg = relay c
             \<and> take 4 (drop 24 (Encode X requestMsg)) = relay c))
   \<and> take 4 (drop 24 (Encode X (snd (Discovery X c)))) = relay c
   \<and> take 4 (drop 24 (Encode X (snd (Decline X c declineIP)))) = relay c
   \<and> (length (ParseIP_To4 X release) = 4
      \<longrightarrow> take 4 (drop 24 (Encode X (snd (Release X c release)))) = relay c)
   \<and> isRelay c = Inr (relay c \<noteq> [0, 0, 0, 0])
   \<and> listenUDP_Port c = Inr (if relay c = [0, 0, 0, 0] then 68 else 67)"
proof -
  have d: "RelayAgentIP (snd (Discovery X c)) = relay c"
    by (simp add: Discovery_def Let_def)
  have e: "RelayAgentIP (snd (Decline X c declineIP)) = relay c"
    by (simp add: Decline_def Let_def)
  have r: "RelayAgentIP (snd (Release X c release)) = relay c"
    by (simp add: Release_def Let_def)
  have d': "take 4 (drop 24 (Encode X (snd (Discovery X c)))) = relay c"
    using assms giaddr_offset [of "snd (Discovery X c)" X]
    by (simp add: Discovery_def Let_def GenDiscoverMessage_def)
  have e': "take 4 (drop 24 (Encode X (snd (Decline X c declineIP)))) = relay c"
    using assms giaddr_offset [of "snd (Decline X c declineIP)" X]
    by (simp add: Decline_def Let_def GenDeclineMessage_def)
  have r': "length (ParseIP_To4 X release) = 4
      \<longrightarrow> take 4 (drop 24 (Encode X (snd (Release X c release)))) = relay c"
    using assms giaddr_offset [of "snd (Release X c release)" X]
    by (simp add: Release_def Let_def GenReleaseMessage_def)
  have q: "Decode X Message0 b = Inr m \<and> TransactionID m = ConnTransactionID c
        \<and> CurrentMessageType c = MessageTypeDiscover \<and> MessageType m = MessageTypeOffer
      \<longrightarrow> (\<exists>c' requestMsg. handlerResponse X c addr b = Inr (False, c', [requestMsg])
             \<and> MessageType requestMsg = MessageTypeRequest
             \<and> RelayAgentIP requestMsg = relay c
             \<and> take 4 (drop 24 (Encode X requestMsg)) = relay c)"
  proof
    assume h: "Decode X Message0 b = Inr m \<and> TransactionID m = ConnTransactionID c
        \<and> CurrentMessageType c = MessageTypeDiscover \<and> MessageType m = MessageTypeOffer"
    define opts where "opts = [GenOption57 1500, GenOption51 7776000]
        @ (if HostName c \<noteq> [] then [GenOption12 (HostName c)] else [])"
    define req where "req = (GenRequestMessage X m opts)\<lparr>RelayAgentIP := relay c\<rparr>"
    have "handlerResponse X c addr b
          = Inr (False, c\<lparr>retry := 0, ConnSecondsElapsed := SecondsElapsed req,
                          CurrentMessageType := MessageTypeRequest\<rparr>, [req])"
      using h by (simp add: handlerResponse_def bnd_def Let_def req_def opts_def
          GenRequestMessage_def)
    moreover have "MessageType req = MessageTypeRequest" "RelayAgentIP req = relay c"
      by (simp_all add: req_def GenRequestMessage_def)
    moreover have "take 4 (drop 24 (Encode X req)) = relay c"
      using assms giaddr_offset [of req X] by (simp add: req_def GenRequestMessage_def)
    ultimately show "\<exists>c' requestMsg. handlerResponse X c addr b = Inr (False, c', [requestMsg])
             \<and> MessageType requestMsg = MessageTypeRequest
             \<and> RelayAgentIP requestMsg = relay c
             \<and> take 4 (drop 24 (Encode X requestMsg)) = relay c"
      by blast
  qed
  have i: "isRelay c = Inr (relay c \<noteq> [0, 0, 0, 0])"
    using assms by (rule isRelay_4)
  have p: "listenUDP_Port c = Inr (if relay c = [0, 0, 0, 0] then 68 else 67)"
    by (simp add: listenUDP_Port_def i bnd_def)
  from d e r q d' e' r' i p show ?thesis by blast
qed

theorem relay_propagation_witness:
  "length (relay relay_session) = 4
   \<and> relay relay_session = [10, 0, 0, 1]
   \<and> Decode ext0 Message0 (Encode ext0 (reply 7 MessageTypeOffer)) = Inr (reply 7 MessageTypeOffer)
   \<and> TransactionID (reply 7 MessageTypeOffer) = ConnTransactionID relay_session
   \<and> CurrentMessageType relay_session = MessageTypeDiscover
   \<and> MessageType (reply 7 MessageTypeOffer) = MessageTypeOffer
   \<and> length (ParseIP_To4 ext0 ''10.0.0.5'') = 4
   \<and> RelayAgentIP (snd (Discovery ext0 relay_session)) = [10, 0, 0, 1]
   \<and> RelayAgentIP (snd (Decline ext0 relay_session ''10.0.0.5'')) = [10, 0, 0, 1]
   \<and> RelayAgentIP (snd (Release ext0 relay_session ''10.0.0.5'')) = [10, 0, 0, 1]
   \<and> (\<exists>c' requestMsg.
         handlerResponse ext0 relay_session ''10.0.0.1:67'' (Encode ext0 (reply 7 MessageTypeOffer))
           = Inr (False, c', [requestMsg])
         \<and> MessageType requestMsg = MessageTypeRequest
         \<and> RelayAgentIP requestMsg = [10, 0, 0, 1]
         \<and> take 4 (drop 24 (Encode ext0 requestMsg)) = [10, 0, 0, 1])
   \<and> take 4 (drop 24 (Encode ext0 (snd (Discovery ext0 relay_session)))) = [10, 0, 0, 1]
   \<and> take 4 (drop 24 (Encode ext0 (snd (Decline ext0 relay_session ''10.0.0.5'')))) = [10, 0, 0, 1]
   \<and> take 4 (drop 24 (Encode ext0 (snd (Release ext0 relay_session ''10.0.0.5'')))) = [10, 0, 0, 1]
   \<and> listenUDP_Port relay_session = Inr 67
   \<and> length (relay (session MessageTypeDiscover 0)) = 4
   \<and> listenUDP_Port (session MessageTypeDiscover 0) = Inr 68"
proof -
  have l: "length (relay relay_session) = 4"
    by (simp add: relay_session_def)
  have v: "relay relay_session = [10, 0, 0, 1]"
    by (simp add: relay_session_def)
  have d: "Decode ext0 Message0 (Encode ext0 (reply 7 MessageTypeOffer))
           = Inr (reply 7 MessageTypeOffer)"
    by code_simp
  have t: "TransactionID (reply 7 MessageTypeOffer) = ConnTransactionID relay_session"
    by (simp add: reply_def relay_session_def session_def)
  have s: "CurrentMessageType relay_session = MessageTypeDiscover"
    by (simp add: relay_session_def session_def)
  have o: "MessageType (reply 7 MessageTypeOffer) = MessageTypeOffer"
    by (simp add: reply_def)
  have i: "length (ParseIP_To4 ext0 ''10.0.0.5'') = 4"
    by (simp add: ext0_def)
  have l0: "length (relay (session MessageTypeDiscover 0)) = 4"
    by (simp add: session_def)
  have v0: "relay (session MessageTypeDiscover 0) = [0, 0, 0, 0]"
    by (simp add: session_def)
  show ?thesis
    using l v d t s o i l0 v0
      relay_propagation [OF l, of ext0 "''10.0.0.5''" "''10.0.0.5''"
        "Encode ext0 (reply 7 MessageTypeOffer)" "reply 7 MessageTypeOffer" "''10.0.0.1:67''"]
      relay_propagation [OF l0, of ext0 "''10.0.0.5''" "''10.0.0.5''"
        "Encode ext0 (reply 7 MessageTypeOffer)" "reply 7 MessageTypeOffer" "''10.0.0.1:67''"]
    by simp
qed

end
